theory Spec2Isabelle
  imports Complex_Main
begin

section \<open>The type declarations of the module\<close>

text \<open>
  The module's declaration file exists in two versions (both are kept in the
  repository's sources). Their content is type declarations only, so they are
  embedded as data: a TypeScript type is a value of \<open>ts_type\<close>, a member of an
  interface or class is a \<open>member\<close> with its name, its \<open>?\<close> mark, its access
  modifier and its type. The suffix \<open>_1\<close> names the declaration of the first
  version, \<open>_2\<close> the one of the second.
\<close>

datatype access = Public | Protected

datatype ts_type =
    TString
  | TBoolean
  | TNumber
  | TLiteral string
  | TRef string
  | TArray ts_type
  | TMap ts_type ts_type
  | TRecord ts_type ts_type
  | TUnion "ts_type list"
  | TObject "member list"
and member =
    Member (m_name: string) (m_optional: bool) (m_access: access) (m_type: ts_type)

text \<open>An interface or class declaration: what it extends, and its members.\<close>

record ts_decl =
  d_extends :: "ts_type list"
  d_members :: "member list"

definition member_names :: "member list \<Rightarrow> string list" where
  "member_names ms = map m_name ms"

definition find_member :: "member list \<Rightarrow> string \<Rightarrow> member option" where
  "find_member ms n = find (\<lambda>m. m_name m = n) ms"

text \<open>The literals of a union of string literals (a type alias such as \<open>'A' | 'B'\<close>).\<close>

fun literals :: "ts_type \<Rightarrow> string list" where
  "literals (TUnion ts) = concat (map literals ts)"
| "literals (TLiteral s) = [s]"
| "literals _ = []"

subsection \<open>First version\<close>

definition PlaylistUpdateData_1 :: ts_decl where
  "PlaylistUpdateData_1 = \<lparr> d_extends = [], d_members =
     [Member ''playing'' True Public TBoolean,
      Member ''sounds'' True Public (TArray (TRef ''PlaylistSoundUpdateData''))] \<rparr>"

definition PlaylistSoundUpdateData_1 :: ts_decl where
  "PlaylistSoundUpdateData_1 = \<lparr> d_extends = [], d_members =
     [Member ''_id'' False Public TString,
      Member ''playing'' True Public TBoolean,
      Member ''pausedTime'' True Public TNumber] \<rparr>"

definition CrossbladePlaylistSound_1 :: ts_decl where
  "CrossbladePlaylistSound_1 = \<lparr> d_extends = [TRef ''PlaylistSound''], d_members =
     [Member ''crossbladeSounds'' True Public
        (TMap (TRef ''CrossbladeEventKey'') (TArray (TRef ''Sound''))),
      Member ''_crossbladeSounds'' True Protected
        (TMap (TRef ''CrossbladeEventKey'') (TArray (TRef ''Sound'')))] \<rparr>"

definition SoundLayer_1 :: ts_decl where
  "SoundLayer_1 = \<lparr> d_extends = [], d_members =
     [Member ''src'' True Public TString,
      Member ''events'' True Public (TArray (TRef ''CrossbladeEventKey''))] \<rparr>"

definition CrossbladeEvent_1 :: ts_decl where
  "CrossbladeEvent_1 = \<lparr> d_extends = [], d_members =
     [Member ''label'' False Public TString,
      Member ''description'' False Public TString] \<rparr>"

definition CrossbladeEventKey_1 :: ts_type where
  "CrossbladeEventKey_1 = TUnion
     [TLiteral ''COMBAT_DISPOSITION_FRIENDLY'',
      TLiteral ''COMBAT_DISPOSITION_NEUTRAL'',
      TLiteral ''COMBAT_DISPOSITION_HOSTILE'',
      TLiteral ''GAME_PAUSED'',
      TLiteral ''DEFAULT'']"

definition CrossbladeSoundLayer_1 :: ts_decl where
  "CrossbladeSoundLayer_1 =
     \<lparr> d_extends = [TRecord TString (TUnion [TString, TArray TString])], d_members =
     [Member ''src'' False Public TString,
      Member ''events'' False Public (TArray TString)] \<rparr>"

definition CrossbladeFlags_1 :: ts_decl where
  "CrossbladeFlags_1 = \<lparr> d_extends = [], d_members =
     [Member ''crossblade'' True Public (TObject
        [Member ''soundLayers'' True Public (TArray (TRef ''CrossbladeSoundLayer''))])] \<rparr>"

subsection \<open>Second version\<close>

definition PlaylistUpdateData_2 :: ts_decl where
  "PlaylistUpdateData_2 = \<lparr> d_extends = [], d_members =
     [Member ''playing'' True Public TBoolean,
      Member ''sounds'' True Public (TArray (TRef ''PlaylistSoundUpdateData''))] \<rparr>"

definition PlaylistSoundUpdateData_2 :: ts_decl where
  "PlaylistSoundUpdateData_2 = \<lparr> d_extends = [], d_members =
     [Member ''_id'' False Public TString,
      Member ''playing'' True Public TBoolean,
      Member ''pausedTime'' True Public TNumber] \<rparr>"

definition CrossbladePlaylistSound_2 :: ts_decl where
  "CrossbladePlaylistSound_2 = \<lparr> d_extends = [TRef ''PlaylistSound''], d_members =
     [Member ''cbSoundLayers'' True Public (TMap (TRef ''Sound'') (TArray TString)),
      Member ''_cbSoundLayers'' True Protected (TMap (TRef ''Sound'') (TArray TString))] \<rparr>"

definition SoundLayer_2 :: ts_decl where
  "SoundLayer_2 = \<lparr> d_extends = [], d_members =
     [Member ''src'' True Public TString,
      Member ''events'' True Public (TArray (TArray TString))] \<rparr>"

definition CrossbladeEvent_2 :: ts_decl where
  "CrossbladeEvent_2 = \<lparr> d_extends = [], d_members =
     [Member ''key'' False Public (TRef ''CrossbladeEventKey''),
      Member ''label'' False Public TString,
      Member ''description'' False Public TString,
      Member ''options'' True Public (TRecord TString TString),
      Member ''isCustom'' True Public TBoolean] \<rparr>"

definition CrossbladeEventKey_2 :: ts_type where
  "CrossbladeEventKey_2 = TUnion
     [TLiteral ''DEFAULT'', TLiteral ''COMBATANT'', TLiteral ''GAME'', TLiteral ''CUSTOM'']"

definition CrossbladeSoundLayer_2 :: ts_decl where
  "CrossbladeSoundLayer_2 =
     \<lparr> d_extends = [TRecord TString (TUnion [TString, TArray TString])], d_members =
     [Member ''src'' False Public TString,
      Member ''events'' False Public (TArray TString)] \<rparr>"

definition CrossbladeFlags_2 :: ts_decl where
  "CrossbladeFlags_2 = \<lparr> d_extends = [], d_members =
     [Member ''crossblade'' True Public (TObject
        [Member ''soundLayers'' True Public (TArray (TRef ''CrossbladeSoundLayer''))])] \<rparr>"

text \<open>
  The public runtime map of a playlist sound: the first member of the class
  \<open>CrossbladePlaylistSound\<close> that is not protected.
\<close>

definition runtime_map :: "ts_decl \<Rightarrow> member option" where
  "runtime_map d = find (\<lambda>m. m_access m = Public) (d_members d)"

text \<open>
  A type is nested when it is a list whose elements are lists again
  (\<open>T[][]\<close>); a flat list is a list that is not nested.
\<close>

fun nested_list :: "ts_type \<Rightarrow> bool" where
  "nested_list (TArray (TArray _)) = True"
| "nested_list _ = False"

fun flat_list :: "ts_type \<Rightarrow> bool" where
  "flat_list (TArray (TArray _)) = False"
| "flat_list (TArray _) = True"
| "flat_list _ = False"

section \<open>The debug-mode service\<close>

text \<open>
  What a call can throw: \<open>Error msg\<close> is \<open>new Error(msg)\<close>, \<open>TypeError\<close> and
  \<open>SyntaxError\<close> are the language's own, \<open>FsError code\<close> is an error of the
  file-system library with its code (ENOENT, EEXIST, ...).
\<close>

datatype error = Error string | TypeError string | SyntaxError string | FsError string

text \<open>
  The enumeration \<open>LogLevel\<close>, the same in both versions, with its numeric values
  (its last member \<open>ALL\<close> is written \<open>ALL'\<close>, the plain name being reserved).
\<close>

datatype LogLevel = NONE | INFO | ERROR | DEBUG | WARN | ALL'

fun LogLevel_value :: "LogLevel \<Rightarrow> nat" where
  "LogLevel_value NONE = 0"
| "LogLevel_value INFO = 1"
| "LogLevel_value ERROR = 2"
| "LogLevel_value DEBUG = 3"
| "LogLevel_value WARN = 4"
| "LogLevel_value ALL' = 5"

text \<open>The kinds \<open>'boolean' | 'level'\<close> of a debug flag, and a value \<open>boolean | LogLevel\<close>.\<close>

datatype debug_kind = Boolean | Level

datatype debug_value = DebugBoolean bool | DebugLevel LogLevel

text \<open>
  \<open>DevModeApi\<close>: the method \<open>getPackageDebugValue(packageName, kind?)\<close> of the
  service, which may throw as any call may. (\<open>registerPackageDebugFlag\<close> returns
  a promise and is not used by the getter.) \<open>DevModeModuleData\<close> has an optional
  \<open>api\<close>.
\<close>

record DevModeApi =
  api_getPackageDebugValue :: "string \<Rightarrow> debug_kind option \<Rightarrow> error + debug_value"

record DevModeModuleData =
  api :: "DevModeApi option"

text \<open>
  Modelled from the spec: the module's adapter \<open>getPackageDebugValue\<close> around the
  optional debug-mode service. Its implementation is not among the sources (only
  the declarations \<open>LogLevel\<close>, \<open>DevModeApi\<close> and \<open>DevModeModuleData\<close> are). The
  specification (4.4, 7, 8) says: the getter exposes the current value of the flag;
  when the service is absent every call is a no-op that returns a benign default,
  \<open>false\<close> for the boolean kind and \<open>NONE\<close> for the level kind, without throwing.
  The service is absent when the host has no such module (\<open>None\<close>) or the module
  has no \<open>api\<close>.
\<close>

fun benign_default :: "debug_kind \<Rightarrow> debug_value" where
  "benign_default Boolean = DebugBoolean False"
| "benign_default Level = DebugLevel NONE"

definition service_absent :: "DevModeModuleData option \<Rightarrow> bool" where
  "service_absent service = (case service of None \<Rightarrow> True | Some m \<Rightarrow> api m = None)"

definition getPackageDebugValue ::
  "DevModeModuleData option \<Rightarrow> string \<Rightarrow> debug_kind \<Rightarrow> error + debug_value" where
  "getPackageDebugValue service packageName kind =
     (case service of
        None \<Rightarrow> Inr (benign_default kind)
      | Some m \<Rightarrow>
          (case api m of
             None \<Rightarrow> Inr (benign_default kind)
           | Some a \<Rightarrow> api_getPackageDebugValue a packageName (Some kind)))"

section \<open>Synchronizing playback between clients\<close>

text \<open>
  The payloads \<open>PlaylistUpdateData\<close> and \<open>PlaylistSoundUpdateData\<close> as values
  (the declarations are the same in both versions). An optional member is an
  \<open>option\<close>. A \<open>number\<close> is only stored and copied, never computed with, so its
  type is left open as \<open>'n\<close>.
\<close>

record 'n PlaylistSoundUpdateData =
  psu_id :: string
  psu_playing :: "bool option"
  psu_pausedTime :: "'n option"

record 'n PlaylistUpdateData =
  pu_playing :: "bool option"
  pu_sounds :: "'n PlaylistSoundUpdateData list option"

text \<open>
  Modelled from the spec: a client's local playback state and the application of
  a payload to it. The code that applies a payload is not among the sources (only
  the declarations of the payloads are). The specification (4.3, 5, 8) says: each
  message fully describes the desired end state per sound, not a delta; the last
  write wins per sound id; after applying
  \<open>{sounds: [{_id: "snd1", playing: true, pausedTime: 12.5}]}\<close> the local state
  of \<open>snd1\<close> is \<open>{playing: true, pausedTime: 12.5}\<close> regardless of the prior
  state. So the local state holds whether the playlist plays and, for every sound
  id, whether the sound plays and its paused time (if any); a member present in
  the payload overwrites the state's, an absent member leaves it as it is, and
  the sounds of the list are applied in order.
\<close>

record 'n sound_state =
  s_playing :: bool
  s_pausedTime :: "'n option"

record 'n playlist_state =
  pl_playing :: bool
  pl_sounds :: "string \<Rightarrow> 'n sound_state"

definition apply_sound_update ::
  "'n PlaylistSoundUpdateData \<Rightarrow> 'n sound_state \<Rightarrow> 'n sound_state" where
  "apply_sound_update u st =
     \<lparr> s_playing = (case psu_playing u of None \<Rightarrow> s_playing st | Some b \<Rightarrow> b),
       s_pausedTime = (case psu_pausedTime u of None \<Rightarrow> s_pausedTime st | Some t \<Rightarrow> Some t) \<rparr>"

fun apply_sound_updates ::
  "'n PlaylistSoundUpdateData list \<Rightarrow> (string \<Rightarrow> 'n sound_state) \<Rightarrow> (string \<Rightarrow> 'n sound_state)" where
  "apply_sound_updates [] sounds = sounds"
| "apply_sound_updates (u # us) sounds =
     apply_sound_updates us (sounds (psu_id u := apply_sound_update u (sounds (psu_id u))))"

definition apply_update :: "'n PlaylistUpdateData \<Rightarrow> 'n playlist_state \<Rightarrow> 'n playlist_state" where
  "apply_update p s =
     \<lparr> pl_playing = (case pu_playing p of None \<Rightarrow> pl_playing s | Some b \<Rightarrow> b),
       pl_sounds = (case pu_sounds p of None \<Rightarrow> pl_sounds s
                    | Some us \<Rightarrow> apply_sound_updates us (pl_sounds s)) \<rparr>"

text \<open>
  The value a list of updates leaves in one member of one sound: the last one
  that an update for that sound carries, if any.
\<close>

fun last_write :: "('u \<Rightarrow> 'a option) \<Rightarrow> 'u list \<Rightarrow> 'a option" where
  "last_write f [] = None"
| "last_write f (u # us) = (case last_write f us of None \<Rightarrow> f u | Some v \<Rightarrow> Some v)"

section \<open>The build script\<close>

subsection \<open>Paths\<close>

text \<open>
  \<open>path.resolve\<close> of the platform library (POSIX flavour) is not code of the
  module; it is modelled by what it computes. A resolved path is absolute and
  normalized, so it is determined by the list of its components below the root:
  \<open>/a/b\<close> is \<open>[''a'', ''b'']\<close> and \<open>/\<close> is \<open>[]\<close>.
\<close>

type_synonym path = "string list"

text \<open>The pieces of a string between its slashes.\<close>

fun components :: "string \<Rightarrow> string list" where
  "components [] = [[]]"
| "components (c # cs) =
     (if c = CHR ''/'' then [] # components cs
      else (case components cs of [] \<Rightarrow> [[c]] | x # xs \<Rightarrow> (c # x) # xs))"

text \<open>
  Normalization walks the pieces from the left: an empty piece and \<open>.\<close> are
  dropped, \<open>..\<close> drops the last component (the root is its own parent).
\<close>

fun normalize_components :: "path \<Rightarrow> string list \<Rightarrow> path" where
  "normalize_components acc [] = acc"
| "normalize_components acc (c # cs) =
     (if c = [] \<or> c = ''.'' then normalize_components acc cs
      else if c = ''..'' then normalize_components (butlast acc) cs
      else normalize_components (acc @ [c]) cs)"

text \<open>
  One argument of \<open>path.resolve\<close>, seen from the directory reached so far: an
  empty argument is skipped, an absolute one starts again from the root.
\<close>

definition resolve_step :: "path \<Rightarrow> string \<Rightarrow> path" where
  "resolve_step base a =
     (case a of
        [] \<Rightarrow> base
      | c # _ \<Rightarrow> normalize_components (if c = CHR ''/'' then [] else base) (components a))"

definition resolve_components :: "path \<Rightarrow> string list \<Rightarrow> path" where
  "resolve_components base args = foldl resolve_step base args"

definition render :: "path \<Rightarrow> string" where
  "render p = (if p = [] then ''/'' else concat (map (\<lambda>c. CHR ''/'' # c) p))"

text \<open>
  The process that runs the script: its working directory (\<open>process.cwd()\<close>)
  and the value \<open>argv.c\<close> that the option parser gives the flag \<open>--clean\<close>
  (alias \<open>-c\<close>, \<open>false\<close> when the flag is not given).
\<close>

record process =
  cwd :: string
  argv_c :: bool

definition cwd_path :: "process \<Rightarrow> path" where
  "cwd_path pr = normalize_components [] (components (cwd pr))"

definition path_resolve :: "process \<Rightarrow> string list \<Rightarrow> string" where
  "path_resolve pr args = render (resolve_components (cwd_path pr) args)"

text \<open>The file that a path string names in a file-system call of the process.\<close>

definition locate :: "process \<Rightarrow> string \<Rightarrow> path" where
  "locate pr s = resolve_components (cwd_path pr) [s]"

subsection \<open>The file system\<close>

text \<open>
  JSON values, as \<open>JSON.parse\<close> returns them. The members of an object are kept
  in the order of the text; a later member of the same name wins.
\<close>

datatype json =
    JNull
  | JBoolean bool
  | JNumber real
  | JString string
  | JArray "json list"
  | JObject "(string \<times> json) list"

text \<open>
  The file system is a map from resolved paths to nodes. A file is represented by
  what \<open>JSON.parse\<close> makes of its content (\<open>None\<close> when the content is not
  JSON); a symbolic link holds its target, an absolute path. The root is always a
  directory. The library calls are not code of the module; they are modelled as
  follows, links being followed at the last component of a path only.
\<close>

datatype node = File "json option" | Dir | Symlink path

type_synonym filesystem = "path \<rightharpoonup> node"

definition lstat :: "filesystem \<Rightarrow> path \<Rightarrow> node option" where
  "lstat fs p = (if p = [] then Some Dir else fs p)"

text \<open>Following links, at most 40 of them (more is the error ELOOP).\<close>

fun stat_fuel :: "nat \<Rightarrow> filesystem \<Rightarrow> path \<Rightarrow> node option" where
  "stat_fuel 0 fs p = None"
| "stat_fuel (Suc n) fs p =
     (case lstat fs p of
        None \<Rightarrow> None
      | Some (Symlink t) \<Rightarrow> stat_fuel n fs t
      | Some nd \<Rightarrow> Some nd)"

definition stat :: "filesystem \<Rightarrow> path \<Rightarrow> node option" where
  "stat fs p = stat_fuel 41 fs p"

text \<open>\<open>fs.existsSync\<close>: whether the path, links followed, leads to a node.\<close>

definition existsSync :: "filesystem \<Rightarrow> path \<Rightarrow> bool" where
  "existsSync fs p = (stat fs p \<noteq> None)"

text \<open>\<open>fs.readJSONSync\<close>: the parsed content of a file, or the error thrown.\<close>

definition readJSONSync :: "filesystem \<Rightarrow> path \<Rightarrow> error + json" where
  "readJSONSync fs p =
     (case stat fs p of
        None \<Rightarrow> Inl (FsError ''ENOENT'')
      | Some (File None) \<Rightarrow> Inl (SyntaxError ''JSON.parse'')
      | Some (File (Some j)) \<Rightarrow> Inr j
      | Some _ \<Rightarrow> Inl (FsError ''EISDIR''))"

text \<open>
  A call that changes the file system returns the error it throws, if any, and
  the file system it leaves.
\<close>

type_synonym effect = "error option \<times> filesystem"

text \<open>\<open>fs.remove\<close>: the node and everything below it go; nothing there is no error.\<close>

definition fs_remove :: "path \<Rightarrow> filesystem \<Rightarrow> effect" where
  "fs_remove p fs = (None, (\<lambda>q. if take (length p) q = p then None else fs q))"

text \<open>
  \<open>fs.ensureDir\<close>: the directories of the path are visited from the root down;
  a missing one is created, an existing one must be a directory (links
  followed).
\<close>

fun mkdirs :: "path \<Rightarrow> string list \<Rightarrow> filesystem \<Rightarrow> effect" where
  "mkdirs base [] fs = (None, fs)"
| "mkdirs base (c # cs) fs =
     (case fs (base @ [c]) of
        None \<Rightarrow> mkdirs (base @ [c]) cs (fs(base @ [c] \<mapsto> Dir))
      | Some _ \<Rightarrow>
          (if stat fs (base @ [c]) = Some Dir then mkdirs (base @ [c]) cs fs
           else (Some (FsError (if cs = [] then ''EEXIST'' else ''ENOTDIR'')), fs)))"

definition ensureDir :: "path \<Rightarrow> filesystem \<Rightarrow> effect" where
  "ensureDir p fs = mkdirs [] p fs"

text \<open>
  \<open>fs.symlink target path\<close>: a link is created at a path where nothing is, in
  a directory that exists.
\<close>

definition fs_symlink :: "path \<Rightarrow> path \<Rightarrow> filesystem \<Rightarrow> effect" where
  "fs_symlink target p fs =
     (if lstat fs p \<noteq> None then (Some (FsError ''EEXIST''), fs)
      else if stat fs (butlast p) \<noteq> Some Dir then (Some (FsError ''ENOENT''), fs)
      else (None, fs(p \<mapsto> Symlink target)))"

subsection \<open>Configuration\<close>

definition name :: string where "name = ''crossblade''"
definition sourceDirectory :: string where "sourceDirectory = ''./src''"
definition distDirectory :: string where "distDirectory = ''./dist''"

subsection \<open>copyFiles\<close>




subsection \<open>getDataPath and link\<close>

text \<open>\<open>config?.dataPath\<close>: \<open>None\<close> is \<open>undefined\<close>. Only an object has members.\<close>

fun config_dataPath :: "json \<Rightarrow> json option" where
  "config_dataPath (JObject members) = map_of (rev members) ''dataPath''"
| "config_dataPath _ = None"

text \<open>What the \<open>if\<close> makes of a value.\<close>

fun truthy :: "json option \<Rightarrow> bool" where
  "truthy None = False"
| "truthy (Some JNull) = False"
| "truthy (Some (JBoolean b)) = b"
| "truthy (Some (JNumber x)) = (x \<noteq> 0)"
| "truthy (Some (JString s)) = (s \<noteq> [])"
| "truthy (Some (JArray _)) = True"
| "truthy (Some (JObject _)) = True"

definition getDataPath :: "process \<Rightarrow> filesystem \<Rightarrow> error + string" where
  "getDataPath pr fs =
     (case readJSONSync fs (locate pr ''foundryconfig.json'') of
        Inl e \<Rightarrow> Inl e
      | Inr config \<Rightarrow>
          (if truthy (config_dataPath config) then
             (case config_dataPath config of
                Some (JString dataPath) \<Rightarrow>
                  (if \<not> existsSync fs (locate pr (path_resolve pr [dataPath]))
                   then Inl (Error ''User Data path invalid, no Data directory found'')
                   else Inr (path_resolve pr [dataPath]))
              | _ \<Rightarrow> Inl (TypeError ''The paths[0] argument must be of type string''))
           else Inl (Error ''No User Data path defined in foundryconfig.json'')))"

text \<open>
  The second half of \<open>link\<close>, once \<open>linkDirectory\<close> is known: with the flag
  \<open>clean\<close> the directory is removed; without it, and when nothing exists there,
  its parent is made and the link to the build is created. (The messages
  written to the console are left out.)
\<close>

definition link_at :: "process \<Rightarrow> string \<Rightarrow> filesystem \<Rightarrow> effect" where
  "link_at pr linkDirectory fs =
     (let clean = argv_c pr in
      if clean then fs_remove (locate pr linkDirectory) fs
      else if \<not> existsSync fs (locate pr linkDirectory) then
        (case ensureDir (locate pr (path_resolve pr [linkDirectory, ''..''])) fs of
           (Some e, fs') \<Rightarrow> (Some e, fs')
         | (None, fs') \<Rightarrow>
             fs_symlink (locate pr (path_resolve pr [distDirectory])) (locate pr linkDirectory) fs')
      else (None, fs))"

definition link :: "process \<Rightarrow> filesystem \<Rightarrow> effect" where
  "link pr fs =
     (if existsSync fs (locate pr (path_resolve pr [sourceDirectory, ''module.json''])) then
        (let destinationDirectory = ''modules'' in
         case getDataPath pr fs of
           Inl e \<Rightarrow> (Some e, fs)
         | Inr dataPath \<Rightarrow>
             link_at pr (path_resolve pr [dataPath, ''Data'', destinationDirectory, name]) fs)
      else (Some (Error ''Could not find module.json''), fs))"

text \<open>
  The first half of \<open>link\<close> on its own: the \<open>linkDirectory\<close> it computes, or
  the error it throws before it has one.
\<close>

definition linkDirectory :: "process \<Rightarrow> filesystem \<Rightarrow> error + string" where
  "linkDirectory pr fs =
     (if existsSync fs (locate pr (path_resolve pr [sourceDirectory, ''module.json''])) then
        (case getDataPath pr fs of
           Inl e \<Rightarrow> Inl e
         | Inr dataPath \<Rightarrow> Inr (path_resolve pr [dataPath, ''Data'', ''modules'', name]))
      else Inl (Error ''Could not find module.json''))"

text \<open>A path of components only: none is empty, \<open>.\<close> or \<open>..\<close>, none holds a slash.\<close>

definition proper :: "path \<Rightarrow> bool" where
  "proper p = list_all (\<lambda>c. c \<noteq> [] \<and> c \<noteq> ''.'' \<and> c \<noteq> ''..'' \<and> CHR ''/'' \<notin> set c) p"

subsection \<open>A project, for the examples\<close>

text \<open>
  A process working in \<open>/work\<close>, without the flag; and the project there with a
  given content of \<open>foundryconfig.json\<close>: the manifest \<open>src/module.json\<close>,
  a \<open>README.md\<close>, the build in \<open>dist\<close>, and a directory \<open>/data\<close>.
\<close>

definition dev :: process where
  "dev = \<lparr> cwd = ''/work'', argv_c = False \<rparr>"

definition project :: "json \<Rightarrow> filesystem" where
  "project config = map_of
     [([''work''], Dir),
      ([''work'', ''src''], Dir),
      ([''work'', ''src'', ''module.json''], File (Some (JObject []))),
      ([''work'', ''foundryconfig.json''], File (Some config)),
      ([''work'', ''README.md''], File None),
      ([''work'', ''dist''], Dir),
      ([''data''], Dir)]"

definition with_dataPath :: "string \<Rightarrow> json" where
  "with_dataPath s = JObject [(''dataPath'', JString s)]"






section \<open>Properties of the declarations\<close>

lemma event_keys_1:
  "set (literals CrossbladeEventKey_1) =
     {''COMBAT_DISPOSITION_FRIENDLY'', ''COMBAT_DISPOSITION_NEUTRAL'',
      ''COMBAT_DISPOSITION_HOSTILE'', ''GAME_PAUSED'', ''DEFAULT''}"
  by (simp add: CrossbladeEventKey_1_def)

lemma event_keys_2:
  "set (literals CrossbladeEventKey_2) = {''DEFAULT'', ''COMBATANT'', ''GAME'', ''CUSTOM''}"
  by (simp add: CrossbladeEventKey_2_def)

lemma event_keys_shared:
  "set (literals CrossbladeEventKey_1) \<inter> set (literals CrossbladeEventKey_2) = {''DEFAULT''}"
  by code_simp

lemma event_keys_differ:
  "set (literals CrossbladeEventKey_1) \<noteq> set (literals CrossbladeEventKey_2)"
  by code_simp

lemma runtime_map_1:
  "runtime_map CrossbladePlaylistSound_1 =
     Some (Member ''crossbladeSounds'' True Public
             (TMap (TRef ''CrossbladeEventKey'') (TArray (TRef ''Sound''))))"
  by (simp add: runtime_map_def CrossbladePlaylistSound_1_def)

lemma runtime_map_2:
  "runtime_map CrossbladePlaylistSound_2 =
     Some (Member ''cbSoundLayers'' True Public (TMap (TRef ''Sound'') (TArray TString)))"
  by (simp add: runtime_map_def CrossbladePlaylistSound_2_def)

lemma runtime_map_names_differ:
  "map_option m_name (runtime_map CrossbladePlaylistSound_1)
     \<noteq> map_option m_name (runtime_map CrossbladePlaylistSound_2)"
  by (simp add: runtime_map_1 runtime_map_2)

lemma runtime_map_types_differ:
  "map_option m_type (runtime_map CrossbladePlaylistSound_1)
     \<noteq> map_option m_type (runtime_map CrossbladePlaylistSound_2)"
  by (simp add: runtime_map_1 runtime_map_2)

lemma runtime_maps_differ:
  "runtime_map CrossbladePlaylistSound_1 \<noteq> runtime_map CrossbladePlaylistSound_2"
  by (simp add: runtime_map_1 runtime_map_2)

text \<open>
  C1. The two versions of the declarations diverge. The event keys of the first
  version are exactly COMBAT_DISPOSITION_FRIENDLY, COMBAT_DISPOSITION_NEUTRAL,
  COMBAT_DISPOSITION_HOSTILE, GAME_PAUSED and DEFAULT; those of the second are
  exactly DEFAULT, COMBATANT, GAME and CUSTOM; DEFAULT is the only key the two
  share. The runtime map of a playlist sound is
  \<open>crossbladeSounds: Map<CrossbladeEventKey, Sound[]>\<close> in the first version and
  \<open>cbSoundLayers: Map<Sound, string[]>\<close> in the second: the name and the type
  both differ, and neither the key sets nor the maps of the two versions are
  equal.
\<close>

theorem declarations_diverge:
  "set (literals CrossbladeEventKey_1) =
     {''COMBAT_DISPOSITION_FRIENDLY'', ''COMBAT_DISPOSITION_NEUTRAL'',
      ''COMBAT_DISPOSITION_HOSTILE'', ''GAME_PAUSED'', ''DEFAULT''}
   \<and> set (literals CrossbladeEventKey_2) = {''DEFAULT'', ''COMBATANT'', ''GAME'', ''CUSTOM''}
   \<and> set (literals CrossbladeEventKey_1) \<inter> set (literals CrossbladeEventKey_2) = {''DEFAULT''}
   \<and> runtime_map CrossbladePlaylistSound_1 =
       Some (Member ''crossbladeSounds'' True Public
               (TMap (TRef ''CrossbladeEventKey'') (TArray (TRef ''Sound''))))
   \<and> runtime_map CrossbladePlaylistSound_2 =
       Some (Member ''cbSoundLayers'' True Public (TMap (TRef ''Sound'') (TArray TString)))
   \<and> map_option m_name (runtime_map CrossbladePlaylistSound_1)
       \<noteq> map_option m_name (runtime_map CrossbladePlaylistSound_2)
   \<and> map_option m_type (runtime_map CrossbladePlaylistSound_1)
       \<noteq> map_option m_type (runtime_map CrossbladePlaylistSound_2)
   \<and> set (literals CrossbladeEventKey_1) \<noteq> set (literals CrossbladeEventKey_2)
   \<and> runtime_map CrossbladePlaylistSound_1 \<noteq> runtime_map CrossbladePlaylistSound_2"
  by (intro conjI event_keys_1 event_keys_2 event_keys_shared runtime_map_1 runtime_map_2
      runtime_map_names_differ runtime_map_types_differ event_keys_differ runtime_maps_differ)

text \<open>
  C2. In both versions the payloads exchanged between clients have the shape
  \<open>PlaylistUpdateData { playing?: boolean, sounds?: PlaylistSoundUpdateData[] }\<close>
  and \<open>PlaylistSoundUpdateData { _id: string, playing?: boolean, pausedTime?: number }\<close>,
  with no other member.
\<close>

theorem wire_payload_shapes:
  "d_members PlaylistUpdateData_1 =
     [Member ''playing'' True Public TBoolean,
      Member ''sounds'' True Public (TArray (TRef ''PlaylistSoundUpdateData''))]
   \<and> d_members PlaylistUpdateData_2 = d_members PlaylistUpdateData_1
   \<and> d_extends PlaylistUpdateData_1 = [] \<and> d_extends PlaylistUpdateData_2 = []
   \<and> d_members PlaylistSoundUpdateData_1 =
     [Member ''_id'' False Public TString,
      Member ''playing'' True Public TBoolean,
      Member ''pausedTime'' True Public TNumber]
   \<and> d_members PlaylistSoundUpdateData_2 = d_members PlaylistSoundUpdateData_1
   \<and> d_extends PlaylistSoundUpdateData_1 = [] \<and> d_extends PlaylistSoundUpdateData_2 = []"
  by (simp add: PlaylistUpdateData_1_def PlaylistUpdateData_2_def
      PlaylistSoundUpdateData_1_def PlaylistSoundUpdateData_2_def)

text \<open>
  C3. In both versions the flags of a document hold an optional \<open>crossblade\<close>
  object with an optional \<open>soundLayers\<close> list of \<open>CrossbladeSoundLayer\<close>, and a
  \<open>CrossbladeSoundLayer\<close> has a mandatory string \<open>src\<close> and a mandatory
  \<open>events\<close> that is a flat list of strings.
\<close>

theorem flag_schema_shape:
  "find_member (d_members CrossbladeFlags_1) ''crossblade'' =
     Some (Member ''crossblade'' True Public (TObject
        [Member ''soundLayers'' True Public (TArray (TRef ''CrossbladeSoundLayer''))]))
   \<and> find_member (d_members CrossbladeFlags_2) ''crossblade'' =
       find_member (d_members CrossbladeFlags_1) ''crossblade''
   \<and> find_member (d_members CrossbladeSoundLayer_1) ''src'' =
       Some (Member ''src'' False Public TString)
   \<and> find_member (d_members CrossbladeSoundLayer_2) ''src'' =
       Some (Member ''src'' False Public TString)
   \<and> find_member (d_members CrossbladeSoundLayer_1) ''events'' =
       Some (Member ''events'' False Public (TArray TString))
   \<and> find_member (d_members CrossbladeSoundLayer_2) ''events'' =
       Some (Member ''events'' False Public (TArray TString))
   \<and> flat_list (TArray TString)"
  by (simp add: find_member_def CrossbladeFlags_1_def CrossbladeFlags_2_def
      CrossbladeSoundLayer_1_def CrossbladeSoundLayer_2_def)

text \<open>
  C4, as the specification states it, fails: the \<open>CrossbladeEvent\<close> of the first
  version has neither a key nor a custom flag.
\<close>

theorem event_attributes_counterexample:
  "\<not> (set [''key'', ''label'', ''description'', ''isCustom'']
        \<subseteq> set (member_names (d_members CrossbladeEvent_1)))"
  by (simp add: member_names_def CrossbladeEvent_1_def)

text \<open>
  C4, amended. The \<open>CrossbladeEvent\<close> of the second version carries a mandatory
  key, label and description, an optional \<open>options\<close> record and an optional custom
  flag \<open>isCustom\<close>; the one of the first version carries a mandatory label and
  description and nothing else.
\<close>

theorem event_attributes:
  "d_members CrossbladeEvent_2 =
     [Member ''key'' False Public (TRef ''CrossbladeEventKey''),
      Member ''label'' False Public TString,
      Member ''description'' False Public TString,
      Member ''options'' True Public (TRecord TString TString),
      Member ''isCustom'' True Public TBoolean]
   \<and> d_members CrossbladeEvent_1 =
     [Member ''label'' False Public TString,
      Member ''description'' False Public TString]"
  by (simp add: CrossbladeEvent_1_def CrossbladeEvent_2_def)

text \<open>
  C5, as the specification states it, fails: in the second version the
  \<open>events\<close> of a \<open>SoundLayer\<close> are a list of lists of strings.
\<close>

theorem sound_layer_events_counterexample:
  "map_option (\<lambda>m. nested_list (m_type m))
     (find_member (d_members SoundLayer_2) ''events'') = Some True
   \<and> map_option (\<lambda>m. flat_list (m_type m))
     (find_member (d_members SoundLayer_2) ''events'') = Some False"
  by (simp add: find_member_def SoundLayer_2_def)

text \<open>
  C5, amended. In both versions a \<open>SoundLayer\<close> has an optional string \<open>src\<close>
  and an optional \<open>events\<close>. In the first version \<open>events\<close> is a flat list of
  event keys (\<open>CrossbladeEventKey[]\<close>); in the second it is a list of lists of
  strings (\<open>string[][]\<close>).
\<close>

theorem sound_layer_shape:
  "d_members SoundLayer_1 =
     [Member ''src'' True Public TString,
      Member ''events'' True Public (TArray (TRef ''CrossbladeEventKey''))]
   \<and> flat_list (TArray (TRef ''CrossbladeEventKey''))
   \<and> d_members SoundLayer_2 =
     [Member ''src'' True Public TString,
      Member ''events'' True Public (TArray (TArray TString))]
   \<and> nested_list (TArray (TArray TString))"
  by (simp add: SoundLayer_1_def SoundLayer_2_def)

section \<open>Properties of the debug-mode adapter\<close>

lemma LogLevel_NONE_least: "LogLevel_value NONE \<le> LogLevel_value l"
  by simp

text \<open>
  C6. When the debug-mode service is absent (the host has no such module, or the
  module has no api), \<open>getPackageDebugValue\<close> returns a value and throws nothing:
  \<open>false\<close> for the kind boolean and \<open>LogLevel.NONE\<close> for the kind level; the value
  of \<open>NONE\<close> is 0, the least of the enumeration.
\<close>

theorem getPackageDebugValue_absent:
  "getPackageDebugValue None packageName Boolean = Inr (DebugBoolean False)
   \<and> getPackageDebugValue None packageName Level = Inr (DebugLevel NONE)
   \<and> getPackageDebugValue (Some \<lparr> api = None \<rparr>) packageName Boolean = Inr (DebugBoolean False)
   \<and> getPackageDebugValue (Some \<lparr> api = None \<rparr>) packageName Level = Inr (DebugLevel NONE)
   \<and> LogLevel_value NONE = 0
   \<and> (\<forall>l. LogLevel_value NONE \<le> LogLevel_value l)"
  by (simp add: getPackageDebugValue_def)

section \<open>Properties of the synchronization\<close>

lemma apply_sound_updates_other:
  "i \<notin> psu_id ` set us \<Longrightarrow> apply_sound_updates us sounds i = sounds i"
  by (induction us arbitrary: sounds) auto

lemma apply_sound_updates_playing:
  "s_playing (apply_sound_updates us sounds i) =
     (case last_write psu_playing (filter (\<lambda>u. psu_id u = i) us) of
        None \<Rightarrow> s_playing (sounds i) | Some b \<Rightarrow> b)"
  by (induction us arbitrary: sounds)
     (auto simp: apply_sound_update_def split: option.splits)

lemma apply_sound_updates_pausedTime:
  "s_pausedTime (apply_sound_updates us sounds i) =
     (case last_write psu_pausedTime (filter (\<lambda>u. psu_id u = i) us) of
        None \<Rightarrow> s_pausedTime (sounds i) | Some t \<Rightarrow> Some t)"
  by (induction us arbitrary: sounds)
     (auto simp: apply_sound_update_def split: option.splits)

lemma apply_sound_updates_twice:
  "apply_sound_updates us (apply_sound_updates us sounds) = apply_sound_updates us sounds"
proof
  fix i
  have "s_playing (apply_sound_updates us (apply_sound_updates us sounds) i)
          = s_playing (apply_sound_updates us sounds i)"
    by (simp add: apply_sound_updates_playing split: option.splits)
  moreover
  have "s_pausedTime (apply_sound_updates us (apply_sound_updates us sounds) i)
          = s_pausedTime (apply_sound_updates us sounds i)"
    by (simp add: apply_sound_updates_pausedTime split: option.splits)
  ultimately
  show "apply_sound_updates us (apply_sound_updates us sounds) i = apply_sound_updates us sounds i"
    by simp
qed

text \<open>
  The scenario of the specification: whatever the state was, after the payload
  \<open>{sounds: [{_id: "snd1", playing: true, pausedTime: 12.5}]}\<close> the sound
  \<open>snd1\<close> plays with paused time 12.5.
\<close>

lemma apply_update_scenario:
  "pl_sounds (apply_update
      \<lparr> pu_playing = None,
        pu_sounds = Some [\<lparr> psu_id = ''snd1'', psu_playing = Some True,
                            psu_pausedTime = Some (12.5 :: real) \<rparr>] \<rparr> s) ''snd1''
   = \<lparr> s_playing = True, s_pausedTime = Some 12.5 \<rparr>"
  by (simp add: apply_update_def apply_sound_update_def)

text \<open>
  C7. Applying a payload is idempotent: for every payload \<open>p\<close> and every state
  \<open>s\<close>, applying \<open>p\<close> twice from \<open>s\<close> gives the state that applying it once gives.
\<close>

theorem apply_update_idempotent:
  "apply_update p (apply_update p s) = apply_update p s"
  by (simp add: apply_update_def apply_sound_updates_twice split: option.splits)

section \<open>Properties of the paths\<close>

lemma components_not_Nil: "components s \<noteq> []"
  by (induction s) (auto split: list.splits)

lemma components_slash_free: "c \<in> set (components s) \<Longrightarrow> CHR ''/'' \<notin> set c"
  by (induction s arbitrary: c) (auto split: list.splits if_splits)

lemma components_no_slash: "CHR ''/'' \<notin> set s \<Longrightarrow> components s = [s]"
  by (induction s) auto

lemma components_append:
  "CHR ''/'' \<notin> set c \<Longrightarrow>
     components (c @ s) = (c @ hd (components s)) # tl (components s)"
  using components_not_Nil [of s]
  by (induction c) (auto split: list.splits)

lemma proper_butlast: "proper p \<Longrightarrow> proper (butlast p)"
  by (induction p) (auto simp: proper_def)

lemma proper_append: "proper (p @ q) = (proper p \<and> proper q)"
  by (simp add: proper_def)

lemma proper_normalize:
  "proper acc \<Longrightarrow> \<forall>c \<in> set cs. CHR ''/'' \<notin> set c \<Longrightarrow> proper (normalize_components acc cs)"
proof (induction cs arbitrary: acc)
  case Nil
  then show ?case by simp
next
  case (Cons c cs)
  have "proper (butlast acc)" using Cons.prems(1) by (rule proper_butlast)
  moreover have "c \<noteq> [] \<Longrightarrow> c \<noteq> ''.'' \<Longrightarrow> c \<noteq> ''..'' \<Longrightarrow> proper (acc @ [c])"
    using Cons.prems by (simp add: proper_def)
  ultimately show ?case using Cons by simp
qed

lemma proper_Nil: "proper []"
  by (simp add: proper_def)

lemma proper_normalize_pieces:
  "proper acc \<Longrightarrow> proper (normalize_components acc (components s))"
  by (rule proper_normalize) (auto simp del: components.simps dest: components_slash_free)

lemma proper_resolve_step:
  assumes base: "proper base"
  shows "proper (resolve_step base a)"
  unfolding resolve_step_def
  using base proper_normalize_pieces [of base a] proper_normalize_pieces [of "[]" a] proper_Nil
  by (auto split: list.split simp del: components.simps)

lemma proper_resolve_components: "proper base \<Longrightarrow> proper (resolve_components base args)"
  unfolding resolve_components_def
  by (induction args arbitrary: base) (auto simp: proper_resolve_step)

lemma proper_cwd_path: "proper (cwd_path pr)"
  unfolding cwd_path_def
  by (rule proper_normalize) (auto simp: proper_Nil components_slash_free)

lemma normalize_proper: "proper p \<Longrightarrow> normalize_components acc p = acc @ p"
  by (induction p arbitrary: acc) (auto simp: proper_def)

lemma components_slashes:
  "proper p \<Longrightarrow> p \<noteq> [] \<Longrightarrow> components (concat (map (\<lambda>c. CHR ''/'' # c) p)) = [] # p"
proof (induction p)
  case Nil
  then show ?case by simp
next
  case (Cons c p)
  have c: "CHR ''/'' \<notin> set c" using Cons.prems(1) by (simp add: proper_def)
  show ?case
  proof (cases "p = []")
    case True
    then show ?thesis using c by (simp add: components_no_slash)
  next
    case False
    have "proper p" using Cons.prems(1) by (simp add: proper_def)
    then have "components (concat (map (\<lambda>c. CHR ''/'' # c) p)) = [] # p"
      using False by (rule Cons.IH)
    then show ?thesis using c by (simp add: components_append)
  qed
qed

lemma resolve_step_render: "proper p \<Longrightarrow> resolve_step base (render p) = p"
proof (cases "p = []")
  case True
  then show ?thesis by (simp add: resolve_step_def render_def)
next
  case False
  assume p: "proper p"
  obtain c q where cq: "p = c # q" using False by (cases p) auto
  have "components (render p) = [] # p"
    using p False by (simp add: render_def components_slashes)
  moreover have "render p = CHR ''/'' # c @ concat (map (\<lambda>c. CHR ''/'' # c) q)"
    by (simp add: render_def cq)
  ultimately show ?thesis
    using p by (simp add: resolve_step_def normalize_proper)
qed

lemma locate_render: "proper p \<Longrightarrow> locate pr (render p) = p"
  by (simp add: locate_def resolve_components_def resolve_step_render)

lemma locate_path_resolve:
  "locate pr (path_resolve pr args) = resolve_components (cwd_path pr) args"
  unfolding path_resolve_def
  by (rule locate_render) (rule proper_resolve_components, rule proper_cwd_path)

lemma resolve_components_render:
  "proper p \<Longrightarrow> resolve_components base (render p # args) = resolve_components p args"
  by (simp add: resolve_components_def resolve_step_render)

lemma resolve_step_component:
  assumes "proper [c]"
  shows "resolve_step base c = base @ [c]"
proof -
  have nz: "c \<noteq> []" "c \<noteq> ''.''" "c \<noteq> ''..''" "CHR ''/'' \<notin> set c"
    using assms by (simp_all add: proper_def)
  have comp: "components c = [c]"
    using nz(4) by (rule components_no_slash)
  have norm: "normalize_components base [c] = base @ [c]"
    using nz(1-3) by simp
  obtain x xs where cx: "c = x # xs"
    using nz(1) by (cases c) auto
  have x: "x \<noteq> CHR ''/''"
    using nz(4) cx by auto
  have "resolve_step base c = normalize_components base (components c)"
    using x by (simp add: resolve_step_def cx del: components.simps)
  also have "\<dots> = base @ [c]"
    by (simp only: comp norm)
  finally show ?thesis .
qed


text \<open>
  The directory that \<open>link\<close> works on, and its parent, as components: below the
  resolved data path, \<open>Data\<close>, \<open>modules\<close> and the name of the module.
\<close>

lemma locate_linkDirectory:
  "locate pr (path_resolve pr [path_resolve pr [dataPath], ''Data'', ''modules'', name])
     = locate pr (path_resolve pr [dataPath]) @ [''Data'', ''modules'', ''crossblade'']"
proof -
  let ?d = "resolve_components (cwd_path pr) [dataPath]"
  have d: "proper ?d" by (rule proper_resolve_components) (rule proper_cwd_path)
  have "resolve_components (cwd_path pr) [render ?d, ''Data'', ''modules'', name]
          = resolve_components ?d [''Data'', ''modules'', name]"
    using d by (rule resolve_components_render)
  also have "\<dots> = ?d @ [''Data'', ''modules'', ''crossblade'']"
    by (simp add: resolve_components_def name_def resolve_step_component proper_def)
  finally show ?thesis
    by (simp add: locate_path_resolve) (simp add: path_resolve_def)
qed


section \<open>Properties of the file system\<close>












section \<open>Properties of the build script\<close>

lemma link_linkDirectory:
  "link pr fs = (case linkDirectory pr fs of Inl e \<Rightarrow> (Some e, fs) | Inr l \<Rightarrow> link_at pr l fs)"
  by (simp add: link_def linkDirectory_def split: sum.splits)


lemma getDataPath_resolved:
  "getDataPath pr fs = Inr dataPath \<Longrightarrow> \<exists>s. dataPath = path_resolve pr [s]"
  by (auto simp: getDataPath_def split: sum.splits if_splits option.splits json.splits)







subsection \<open>getDataPath\<close>

lemma getDataPath_read_error:
  "readJSONSync fs (locate pr ''foundryconfig.json'') = Inl e \<Longrightarrow> getDataPath pr fs = Inl e"
  by (simp add: getDataPath_def)

lemma getDataPath_undefined:
  "readJSONSync fs (locate pr ''foundryconfig.json'') = Inr config
    \<Longrightarrow> \<not> truthy (config_dataPath config)
    \<Longrightarrow> getDataPath pr fs = Inl (Error ''No User Data path defined in foundryconfig.json'')"
  by (simp add: getDataPath_def)

lemma getDataPath_invalid:
  "readJSONSync fs (locate pr ''foundryconfig.json'') = Inr config
    \<Longrightarrow> config_dataPath config = Some (JString s) \<Longrightarrow> s \<noteq> []
    \<Longrightarrow> \<not> existsSync fs (locate pr (path_resolve pr [s]))
    \<Longrightarrow> getDataPath pr fs = Inl (Error ''User Data path invalid, no Data directory found'')"
  by (simp add: getDataPath_def)

lemma getDataPath_found:
  "readJSONSync fs (locate pr ''foundryconfig.json'') = Inr config
    \<Longrightarrow> config_dataPath config = Some (JString s) \<Longrightarrow> s \<noteq> []
    \<Longrightarrow> existsSync fs (locate pr (path_resolve pr [s]))
    \<Longrightarrow> getDataPath pr fs = Inr (path_resolve pr [s])"
  by (simp add: getDataPath_def)

lemma path_resolve_linkDirectory:
  assumes "path_resolve pr [s] \<noteq> ''/''"
  shows "path_resolve pr [path_resolve pr [s], ''Data'', ''modules'', name]
           = path_resolve pr [s] @ ''/Data/modules/crossblade''"
proof -
  let ?d = "resolve_components (cwd_path pr) [s]"
  let ?l = "resolve_components (cwd_path pr) [path_resolve pr [s], ''Data'', ''modules'', name]"
  have d: "?d \<noteq> []"
    using assms by (auto simp: path_resolve_def render_def)
  have "?l = ?d @ [''Data'', ''modules'', ''crossblade'']"
    using locate_linkDirectory [of pr s] by (simp only: locate_path_resolve)
  then have "render ?l = render (?d @ [''Data'', ''modules'', ''crossblade''])"
    by simp
  also have "\<dots> = render ?d @ ''/Data/modules/crossblade''"
    using d by (simp add: render_def)
  finally show ?thesis
    by (simp only: path_resolve_def)
qed

text \<open>
  C8. \<open>getDataPath\<close> reads \<open>foundryconfig.json\<close>. It throws an \<open>Error\<close> when the
  configuration defines no \<open>dataPath\<close> (none at all, or one that the test
  \<open>config?.dataPath\<close> takes for false, such as the empty string), and when the
  resolved \<open>dataPath\<close> does not exist; otherwise it returns the resolved
  \<open>dataPath\<close>. From it \<open>link\<close> derives its directory: the components
  \<open>Data\<close>, \<open>modules\<close>, \<open>crossblade\<close> below the resolved path, which reads
  \<open><dataPath>/Data/modules/crossblade\<close> (when the data path is not the root,
  whose name already ends in the slash).
\<close>

theorem getDataPath_link_location:
  "(readJSONSync fs (locate pr ''foundryconfig.json'') = Inr config
      \<and> config_dataPath config = None
      \<longrightarrow> getDataPath pr fs = Inl (Error ''No User Data path defined in foundryconfig.json''))
   \<and> (readJSONSync fs (locate pr ''foundryconfig.json'') = Inr config
      \<and> \<not> truthy (config_dataPath config)
      \<longrightarrow> getDataPath pr fs = Inl (Error ''No User Data path defined in foundryconfig.json''))
   \<and> (readJSONSync fs (locate pr ''foundryconfig.json'') = Inr config
      \<and> config_dataPath config = Some (JString s) \<and> s \<noteq> []
      \<and> \<not> existsSync fs (locate pr (path_resolve pr [s]))
      \<longrightarrow> getDataPath pr fs = Inl (Error ''User Data path invalid, no Data directory found''))
   \<and> (readJSONSync fs (locate pr ''foundryconfig.json'') = Inr config
      \<and> config_dataPath config = Some (JString s) \<and> s \<noteq> []
      \<and> existsSync fs (locate pr (path_resolve pr [s]))
      \<longrightarrow> getDataPath pr fs = Inr (path_resolve pr [s]))
   \<and> (getDataPath pr fs = Inr dataPath
      \<and> existsSync fs (locate pr (path_resolve pr [sourceDirectory, ''module.json'']))
      \<longrightarrow> linkDirectory pr fs = Inr (path_resolve pr [dataPath, ''Data'', ''modules'', name])
        \<and> link pr fs = link_at pr (path_resolve pr [dataPath, ''Data'', ''modules'', name]) fs
        \<and> locate pr (path_resolve pr [dataPath, ''Data'', ''modules'', name])
            = locate pr dataPath @ [''Data'', ''modules'', ''crossblade''])
   \<and> (getDataPath pr fs = Inr dataPath \<and> dataPath \<noteq> ''/''
      \<longrightarrow> path_resolve pr [dataPath, ''Data'', ''modules'', name]
            = dataPath @ ''/Data/modules/crossblade'')"
proof -
  have a: "readJSONSync fs (locate pr ''foundryconfig.json'') = Inr config
      \<and> config_dataPath config = None
      \<longrightarrow> getDataPath pr fs = Inl (Error ''No User Data path defined in foundryconfig.json'')"
    by (simp add: getDataPath_undefined)
  have b: "readJSONSync fs (locate pr ''foundryconfig.json'') = Inr config
      \<and> \<not> truthy (config_dataPath config)
      \<longrightarrow> getDataPath pr fs = Inl (Error ''No User Data path defined in foundryconfig.json'')"
    by (simp add: getDataPath_undefined)
  have c: "readJSONSync fs (locate pr ''foundryconfig.json'') = Inr config
      \<and> config_dataPath config = Some (JString s) \<and> s \<noteq> []
      \<and> \<not> existsSync fs (locate pr (path_resolve pr [s]))
      \<longrightarrow> getDataPath pr fs = Inl (Error ''User Data path invalid, no Data directory found'')"
    using getDataPath_invalid by blast
  have d: "readJSONSync fs (locate pr ''foundryconfig.json'') = Inr config
      \<and> config_dataPath config = Some (JString s) \<and> s \<noteq> []
      \<and> existsSync fs (locate pr (path_resolve pr [s]))
      \<longrightarrow> getDataPath pr fs = Inr (path_resolve pr [s])"
    using getDataPath_found by blast
  have e: "getDataPath pr fs = Inr dataPath
      \<and> existsSync fs (locate pr (path_resolve pr [sourceDirectory, ''module.json'']))
      \<longrightarrow> linkDirectory pr fs = Inr (path_resolve pr [dataPath, ''Data'', ''modules'', name])
        \<and> link pr fs = link_at pr (path_resolve pr [dataPath, ''Data'', ''modules'', name]) fs
        \<and> locate pr (path_resolve pr [dataPath, ''Data'', ''modules'', name])
            = locate pr dataPath @ [''Data'', ''modules'', ''crossblade'']"
  proof (intro impI, elim conjE)
    assume g: "getDataPath pr fs = Inr dataPath"
      and m: "existsSync fs (locate pr (path_resolve pr [sourceDirectory, ''module.json'']))"
    from g obtain s' where s': "dataPath = path_resolve pr [s']"
      using getDataPath_resolved by blast
    have 1: "linkDirectory pr fs = Inr (path_resolve pr [dataPath, ''Data'', ''modules'', name])"
      using g m by (simp add: linkDirectory_def)
    then have 2: "link pr fs = link_at pr (path_resolve pr [dataPath, ''Data'', ''modules'', name]) fs"
      by (simp add: link_linkDirectory)
    have 3: "locate pr (path_resolve pr [dataPath, ''Data'', ''modules'', name])
            = locate pr dataPath @ [''Data'', ''modules'', ''crossblade'']"
      unfolding s' by (rule locate_linkDirectory)
    show "linkDirectory pr fs = Inr (path_resolve pr [dataPath, ''Data'', ''modules'', name])
        \<and> link pr fs = link_at pr (path_resolve pr [dataPath, ''Data'', ''modules'', name]) fs
        \<and> locate pr (path_resolve pr [dataPath, ''Data'', ''modules'', name])
            = locate pr dataPath @ [''Data'', ''modules'', ''crossblade'']"
      using 1 2 3 by (intro conjI)
  qed
  have f: "getDataPath pr fs = Inr dataPath \<and> dataPath \<noteq> ''/''
      \<longrightarrow> path_resolve pr [dataPath, ''Data'', ''modules'', name]
            = dataPath @ ''/Data/modules/crossblade''"
  proof (intro impI, elim conjE)
    assume g: "getDataPath pr fs = Inr dataPath" and r: "dataPath \<noteq> ''/''"
    from g obtain s' where s': "dataPath = path_resolve pr [s']"
      using getDataPath_resolved by blast
    show "path_resolve pr [dataPath, ''Data'', ''modules'', name]
            = dataPath @ ''/Data/modules/crossblade''"
      using r unfolding s' by (rule path_resolve_linkDirectory)
  qed
  show ?thesis by (intro conjI a b c d e f)
qed

subsection \<open>The example project\<close>

lemma cwd_path_dev: "cwd_path dev = [''work'']"
  by (simp add: cwd_path_def dev_def)

lemma locate_dev_config: "locate dev ''foundryconfig.json'' = [''work'', ''foundryconfig.json'']"
  by (simp add: locate_def resolve_components_def resolve_step_def cwd_path_dev)

lemma locate_dev_manifest:
  "locate dev (path_resolve dev [sourceDirectory, ''module.json'']) = [''work'', ''src'', ''module.json'']"
  by (simp add: locate_path_resolve resolve_components_def resolve_step_def cwd_path_dev
      sourceDirectory_def)

lemma path_resolve_dev_data: "path_resolve dev [''/data''] = ''/data''"
  by (simp add: path_resolve_def resolve_components_def resolve_step_def render_def)

lemma path_resolve_dev_nowhere: "path_resolve dev [''/nowhere''] = ''/nowhere''"
  by (simp add: path_resolve_def resolve_components_def resolve_step_def render_def)

lemma locate_dev_data: "locate dev ''/data'' = [''data'']"
  by (simp add: locate_def resolve_components_def resolve_step_def)

lemma locate_dev_nowhere: "locate dev ''/nowhere'' = [''nowhere'']"
  by (simp add: locate_def resolve_components_def resolve_step_def)

lemma stat_plain:
  "fs p = Some nd \<Longrightarrow> p \<noteq> [] \<Longrightarrow> (\<forall>t. nd \<noteq> Symlink t) \<Longrightarrow> stat fs p = Some nd"
  by (cases nd) (simp_all add: stat_def lstat_def numeral_eq_Suc)

lemma stat_absent: "fs p = None \<Longrightarrow> p \<noteq> [] \<Longrightarrow> stat fs p = None"
  by (simp add: stat_def lstat_def numeral_eq_Suc)

lemma read_project_config:
  "readJSONSync (project config) (locate dev ''foundryconfig.json'') = Inr config"
proof -
  have "stat (project config) [''work'', ''foundryconfig.json''] = Some (File (Some config))"
    by (rule stat_plain) (simp_all add: project_def)
  then show ?thesis by (simp add: readJSONSync_def locate_dev_config)
qed

lemma project_manifest_exists:
  "existsSync (project config) (locate dev (path_resolve dev [sourceDirectory, ''module.json'']))"
proof -
  have "stat (project config) [''work'', ''src'', ''module.json''] = Some (File (Some (JObject [])))"
    by (rule stat_plain) (simp_all add: project_def)
  then show ?thesis by (simp add: existsSync_def locate_dev_manifest)
qed

lemma project_data_exists:
  "existsSync (project config) (locate dev (path_resolve dev [''/data'']))"
proof -
  have "stat (project config) [''data''] = Some Dir"
    by (rule stat_plain) (simp_all add: project_def)
  then show ?thesis by (simp add: existsSync_def path_resolve_dev_data locate_dev_data)
qed

lemma project_nowhere_absent:
  "\<not> existsSync (project config) (locate dev (path_resolve dev [''/nowhere'']))"
proof -
  have "stat (project config) [''nowhere''] = None"
    by (rule stat_absent) (simp_all add: project_def)
  then show ?thesis by (simp add: existsSync_def path_resolve_dev_nowhere locate_dev_nowhere)
qed

text \<open>
  An example: a configuration without \<open>dataPath\<close>, one whose \<open>dataPath\<close> is
  the empty string, one that names a directory that is not there, and one that
  names \<open>/data\<close>, from which the link directory
  \<open>/data/Data/modules/crossblade\<close> follows.
\<close>

theorem getDataPath_link_location_witness:
  "getDataPath dev (project (JObject []))
     = Inl (Error ''No User Data path defined in foundryconfig.json'')
   \<and> getDataPath dev (project (with_dataPath ''''))
     = Inl (Error ''No User Data path defined in foundryconfig.json'')
   \<and> getDataPath dev (project (with_dataPath ''/nowhere''))
     = Inl (Error ''User Data path invalid, no Data directory found'')
   \<and> getDataPath dev (project (with_dataPath ''/data'')) = Inr ''/data''
   \<and> linkDirectory dev (project (with_dataPath ''/data'')) = Inr ''/data/Data/modules/crossblade''
   \<and> locate dev (path_resolve dev [''/data'', ''Data'', ''modules'', name])
       = [''data'', ''Data'', ''modules'', ''crossblade'']"
proof -
  have 1: "getDataPath dev (project (JObject []))
     = Inl (Error ''No User Data path defined in foundryconfig.json'')"
    using getDataPath_link_location
      [where fs = "project (JObject [])" and pr = dev and config = "JObject []"
         and s = "[]" and dataPath = "[]"]
    by (simp add: read_project_config)
  have 2: "getDataPath dev (project (with_dataPath ''''))
     = Inl (Error ''No User Data path defined in foundryconfig.json'')"
    using getDataPath_link_location
      [where fs = "project (with_dataPath '''')" and pr = dev and config = "with_dataPath ''''"
         and s = "[]" and dataPath = "[]"]
    by (simp add: read_project_config with_dataPath_def)
  have 3: "getDataPath dev (project (with_dataPath ''/nowhere''))
     = Inl (Error ''User Data path invalid, no Data directory found'')"
    using getDataPath_link_location
      [where fs = "project (with_dataPath ''/nowhere'')" and pr = dev
         and config = "with_dataPath ''/nowhere''" and s = "''/nowhere''" and dataPath = "[]"]
      project_nowhere_absent [of "with_dataPath ''/nowhere''"]
    by (simp add: read_project_config with_dataPath_def)
  have 4: "getDataPath dev (project (with_dataPath ''/data'')) = Inr ''/data''"
    using getDataPath_link_location
      [where fs = "project (with_dataPath ''/data'')" and pr = dev
         and config = "with_dataPath ''/data''" and s = "''/data''" and dataPath = "[]"]
      project_data_exists [of "with_dataPath ''/data''"]
    by (simp add: read_project_config with_dataPath_def path_resolve_dev_data)
  note at_data = getDataPath_link_location
      [where fs = "project (with_dataPath ''/data'')" and pr = dev and dataPath = "''/data''"
         and config = "with_dataPath ''/data''" and s = "''/data''"]
  have h: "getDataPath dev (project (with_dataPath ''/data'')) = Inr ''/data''
           \<and> existsSync (project (with_dataPath ''/data''))
                 (locate dev (path_resolve dev [sourceDirectory, ''module.json'']))"
    using 4 project_manifest_exists [of "with_dataPath ''/data''"] by simp
  have h': "getDataPath dev (project (with_dataPath ''/data'')) = Inr ''/data'' \<and> ''/data'' \<noteq> ''/''"
    using 4 by simp
  have 5: "linkDirectory dev (project (with_dataPath ''/data''))
             = Inr (path_resolve dev [''/data'', ''Data'', ''modules'', name])"
    and 6: "locate dev (path_resolve dev [''/data'', ''Data'', ''modules'', name])
             = locate dev ''/data'' @ [''Data'', ''modules'', ''crossblade'']"
    using at_data [THEN conjunct2, THEN conjunct2, THEN conjunct2, THEN conjunct2,
        THEN conjunct1, THEN mp, OF h]
    by simp_all
  have 7: "path_resolve dev [''/data'', ''Data'', ''modules'', name]
             = ''/data'' @ ''/Data/modules/crossblade''"
    using at_data [THEN conjunct2, THEN conjunct2, THEN conjunct2, THEN conjunct2,
        THEN conjunct2, THEN mp, OF h'] .
  show ?thesis
    using 1 2 3 4 5 6 7 by (simp add: locate_dev_data)
qed

subsection \<open>link\<close>


















subsection \<open>copyFiles\<close>



























end
